theory Spec2Isabelle
  imports Complex_Main
begin

section \<open>The model viewer of js/modelViewer.js\<close>

text \<open>
  The file wires a scene-graph library together: a scene, a perspective camera, a renderer,
  an orbit controller, a loader and an animation mixer. The embedding keeps the objects the
  viewer owns and writes to (camera, controls, model, mixer, scene children) as records, and
  records every call that leaves the file (renderer, DOM, window, loader, console, clock,
  mixer, controller) in a chronological \<open>trace\<close>, so that the order of calls can be stated.

  JavaScript numbers are modelled as real numbers. Where the source divides by a value that
  the environment supplies and that can be zero, the quotient is a \<open>real option\<close>
  (\<open>js_div\<close>); the one other division, by the sine of half the field of view, has a
  non-zero divisor in every constructed viewer (\<open>sin_half_fov_pos\<close>).
\<close>

subsection \<open>Library values\<close>

datatype vec3 = Vector3 (vx: real) (vy: real) (vz: real)

text \<open>
  \<open>Box3\<close> of the library: an axis-aligned box, empty until a point is added.
  \<open>getCenter\<close> and \<open>getSize\<close> of an empty box are the zero vector.
\<close>

datatype box3 = EmptyBox | Box3 (bmin: vec3) (bmax: vec3)

fun expandByPoint :: "vec3 \<Rightarrow> box3 \<Rightarrow> box3" where
  "expandByPoint p EmptyBox = Box3 p p"
| "expandByPoint p (Box3 lo hi) =
     Box3 (Vector3 (min (vx lo) (vx p)) (min (vy lo) (vy p)) (min (vz lo) (vz p)))
          (Vector3 (max (vx hi) (vx p)) (max (vy hi) (vy p)) (max (vz hi) (vz p)))"

fun getCenter :: "box3 \<Rightarrow> vec3" where
  "getCenter EmptyBox = Vector3 0 0 0"
| "getCenter (Box3 lo hi) =
     Vector3 ((vx lo + vx hi) * 0.5) ((vy lo + vy hi) * 0.5) ((vz lo + vz hi) * 0.5)"

fun getSize :: "box3 \<Rightarrow> vec3" where
  "getSize EmptyBox = Vector3 0 0 0"
| "getSize (Box3 lo hi) = Vector3 (vx hi - vx lo) (vy hi - vy lo) (vz hi - vz lo)"

text \<open>
  An object of the scene graph as the viewer uses it: its position, its scale, and the
  points of its geometry in the object's own frame (the points the library grows the
  bounding box by). The loaded scene root carries no rotation and hangs directly under the
  scene, so a point \<open>p\<close> of it lies at \<open>position + scale * p\<close> in the world.
\<close>

record Object3D =
  position :: vec3
  scale :: vec3
  geometry :: "vec3 list"

definition localToWorld :: "Object3D \<Rightarrow> vec3 \<Rightarrow> vec3" where
  "localToWorld obj p =
     Vector3 (vx (position obj) + vx (scale obj) * vx p)
             (vy (position obj) + vy (scale obj) * vy p)
             (vz (position obj) + vz (scale obj) * vz p)"

definition setFromObject :: "Object3D \<Rightarrow> box3" where
  "setFromObject obj = fold expandByPoint (map (localToWorld obj) (geometry obj)) EmptyBox"

type_synonym AnimationClip = string

record GLTF =
  gltf_scene :: Object3D
  animations :: "AnimationClip list"

text \<open>What \<open>scene.add\<close> receives: a light, or the reference held in \<open>this.model\<close>.\<close>

datatype node =
    AmbientLight nat real
  | DirectionalLight nat real vec3
  | ModelNode

record PerspectiveCamera =
  fov :: real
  aspect :: "real option"
  near :: real
  far :: real
  cam_position :: vec3

record OrbitControls =
  enableDamping :: bool
  dampingFactor :: real
  screenSpacePanning :: bool
  minDistance :: real
  maxDistance :: real
  autoRotate :: bool
  autoRotateSpeed :: real
  enableZoom :: bool
  enablePan :: bool
  target :: vec3

record AnimationMixer =
  root :: node
  playing :: "AnimationClip list"
  time :: real

subsection \<open>The environment\<close>

record Window =
  innerWidth :: real
  innerHeight :: real
  devicePixelRatio :: real

record ProgressEvent =
  loaded :: real
  total :: real

text \<open>
  Division of two finite numbers: \<open>None\<close> stands for the results \<open>Infinity\<close>,
  \<open>-Infinity\<close> and \<open>NaN\<close> that a zero divisor gives.
\<close>

definition js_div :: "real \<Rightarrow> real \<Rightarrow> real option" where
  "js_div a b = (if b = 0 then None else Some (a / b))"

text \<open>\<open>document.getElementById\<close> over the ids present in the document.\<close>

definition getElementById :: "string list \<Rightarrow> string \<Rightarrow> string option" where
  "getElementById doc i = (if i \<in> set doc then Some i else None)"

text \<open>
  \<open>OrbitControls.update()\<close> is library code: it moves the camera about the target
  (auto-rotation, damping, pointer input, distance limits). Its effect on the camera position
  at one call is a parameter of every function that makes the call: a function from the
  controller and the camera position before the call to the position after it.
\<close>

type_synonym orbit = "OrbitControls \<Rightarrow> vec3 \<Rightarrow> vec3"

datatype call =
    SetPixelRatio real
  | SetSize real real
  | SetClearColor nat real
  | AppendChild string
  | SetStyle string string
  | AddEventListener string
  | SceneAdd node
  | LoaderLoad string
  | ConsoleLog "real option"
  | ConsoleError string
  | ClipAction AnimationClip
  | ActionPlay AnimationClip
  | UpdateProjectionMatrix
  | ControlsUpdate
  | ClockGetDelta
  | MixerUpdate real
  | RequestAnimationFrame
  | Render

subsection \<open>The viewer\<close>

record ModelViewer =
  container :: "string option"
  scene :: "node list"
  camera :: PerspectiveCamera
  controls :: "OrbitControls option"
  model :: "Object3D option"
  mixer :: "AnimationMixer option"
  trace :: "call list"

datatype error = TypeError

text \<open>
  A method returns, or throws with the state it had reached: an exception undoes nothing.
\<close>

datatype outcome = Returns (state: ModelViewer) | Throws error (state: ModelViewer)

fun andThen :: "outcome \<Rightarrow> (ModelViewer \<Rightarrow> outcome) \<Rightarrow> outcome" where
  "andThen (Returns v) f = f v"
| "andThen (Throws e v) f = Throws e v"

definition emit :: "call list \<Rightarrow> ModelViewer \<Rightarrow> ModelViewer" where
  "emit cs v = v\<lparr>trace := trace v @ cs\<rparr>"

text \<open>Lines 22 to 53. \<open>this.container.appendChild\<close> throws when the element is missing.\<close>

definition init :: "Window \<Rightarrow> ModelViewer \<Rightarrow> outcome" where
  "init w v0 =
    (let v1 = emit [SetPixelRatio (devicePixelRatio w),
                    SetSize (innerWidth w) (innerHeight w),
                    SetClearColor 0x000000 0] v0
     in case container v1 of
          None \<Rightarrow> Throws TypeError v1
        | Some el \<Rightarrow>
           (let v2 = emit [AppendChild el] v1;
                v3 = v2\<lparr>camera := (camera v2)\<lparr>cam_position := Vector3 0 1.5 4\<rparr>\<rparr>;
                v4 = emit [SetStyle ''width'' ''100%'', SetStyle ''height'' ''100%'',
                           SetStyle ''position'' ''absolute'', SetStyle ''top'' ''0'',
                           SetStyle ''left'' ''0''] v3;
                v5 = v4\<lparr>controls := Some
                       \<lparr>enableDamping = True, dampingFactor = 0.05,
                        screenSpacePanning = False, minDistance = 2, maxDistance = 10,
                        autoRotate = True, autoRotateSpeed = 1.0, enableZoom = False,
                        enablePan = False, target = Vector3 0 0.5 0\<rparr>\<rparr>
            in Returns (emit [AddEventListener ''resize''] v5)))"

text \<open>Lines 55 to 77.\<close>

definition add :: "node \<Rightarrow> ModelViewer \<Rightarrow> ModelViewer" where
  "add n v = emit [SceneAdd n] (v\<lparr>scene := scene v @ [n]\<rparr>)"

definition setupLights :: "ModelViewer \<Rightarrow> ModelViewer" where
  "setupLights v =
    (let ambientLight = AmbientLight 0xffffff 0.6;
         v1 = add ambientLight v;
         frontLight = DirectionalLight 0xffffff 1.2 (Vector3 0 2 4);
         v2 = add frontLight v1;
         backLight = DirectionalLight 0xffffff 0.8 (Vector3 0 1 (-2));
         v3 = add backLight v2;
         rightLight = DirectionalLight 0x00ffff 0.6 (Vector3 2 0 0);
         v4 = add rightLight v3;
         leftLight = DirectionalLight 0xff00ff 0.6 (Vector3 (-2) 0 0)
     in add leftLight v4)"

text \<open>
  Lines 79 to 126. \<open>loadModel\<close> starts the load; the loader later calls one of the three
  callbacks, modelled as functions of their own.
\<close>

definition loadModel :: "ModelViewer \<Rightarrow> ModelViewer" where
  "loadModel v = emit [LoaderLoad ''./robot_playground.glb''] v"

definition loadModel_onLoad :: "orbit \<Rightarrow> GLTF \<Rightarrow> ModelViewer \<Rightarrow> outcome" where
  "loadModel_onLoad upd gltf v0 =
    (let m1 = (gltf_scene gltf)\<lparr>position := Vector3 0 (-0.5) 0, scale := Vector3 1.2 1.2 1.2\<rparr>;
         v1 = add ModelNode (v0\<lparr>model := Some m1\<rparr>);
         v2 = (case animations gltf of
                 [] \<Rightarrow> v1
               | clip # _ \<Rightarrow>
                   emit [ClipAction clip, ActionPlay clip]
                     (v1\<lparr>mixer := Some \<lparr>root = ModelNode, playing = [clip], time = 0\<rparr>\<rparr>));
         box = setFromObject m1;
         center = getCenter box;
         size = getSize box;
         m2 = m1\<lparr>position := Vector3 (vx (position m1) - vx center)
                                      (vy (position m1))
                                      (vz (position m1) - vz center)\<rparr>;
         v3 = v2\<lparr>model := Some m2\<rparr>;
         maxDim = max (max (vx size) (vy size)) (vz size);
         fov' = fov (camera v3) * (pi / 180);
         cameraZ = \<bar>maxDim / sin (fov' / 2)\<bar>;
         p = cam_position (camera v3);
         v4 = emit [UpdateProjectionMatrix]
                (v3\<lparr>camera := (camera v3)\<lparr>cam_position := Vector3 (vx p) (vy p) (cameraZ * 0.8)\<rparr>\<rparr>)
     in case controls v4 of
          None \<Rightarrow> Throws TypeError v4
        | Some c \<Rightarrow>
           (let c' = c\<lparr>target := Vector3 0 (vy center * 0.8) 0\<rparr>;
                v5 = v4\<lparr>controls := Some c'\<rparr>
            in Returns (emit [ControlsUpdate]
                 (v5\<lparr>camera := (camera v5)\<lparr>cam_position := upd c' (cam_position (camera v5))\<rparr>\<rparr>))))"

definition loadModel_onProgress :: "ProgressEvent \<Rightarrow> ModelViewer \<Rightarrow> ModelViewer" where
  "loadModel_onProgress xhr v =
     emit [ConsoleLog (map_option (\<lambda>q. q * 100) (js_div (loaded xhr) (total xhr)))] v"

definition loadModel_onError :: "string \<Rightarrow> ModelViewer \<Rightarrow> ModelViewer" where
  "loadModel_onError err v = emit [ConsoleError err] v"

text \<open>Lines 128 to 132.\<close>

definition onWindowResize :: "Window \<Rightarrow> ModelViewer \<Rightarrow> ModelViewer" where
  "onWindowResize w v =
     emit [UpdateProjectionMatrix, SetSize (innerWidth w) (innerHeight w)]
       (v\<lparr>camera := (camera v)\<lparr>aspect := js_div (innerWidth w) (innerHeight w)\<rparr>\<rparr>)"

text \<open>
  Lines 134 to 147. \<open>delta\<close> is what \<open>this.clock.getDelta()\<close> returns when it
  is called.
\<close>

definition animate :: "orbit \<Rightarrow> real \<Rightarrow> ModelViewer \<Rightarrow> outcome" where
  "animate upd delta v0 =
    (let v1 = emit [RequestAnimationFrame] v0
     in case controls v1 of
          None \<Rightarrow> Throws TypeError v1
        | Some c \<Rightarrow>
           (let v2 = emit [ControlsUpdate]
                       (v1\<lparr>camera := (camera v1)\<lparr>cam_position := upd c (cam_position (camera v1))\<rparr>\<rparr>);
                v3 = (case mixer v2 of
                        None \<Rightarrow> v2
                      | Some mx \<Rightarrow>
                          emit [ClockGetDelta, MixerUpdate delta]
                            (v2\<lparr>mixer := Some (mx\<lparr>time := time mx + delta\<rparr>)\<rparr>))
            in Returns (emit [Render] v3)))"

text \<open>Lines 6 to 20.\<close>

definition constructor :: "string list \<Rightarrow> Window \<Rightarrow> string \<Rightarrow> orbit \<Rightarrow> real \<Rightarrow> outcome" where
  "constructor doc w containerId upd delta =
    (let this = \<lparr>container = getElementById doc containerId,
                 scene = [],
                 camera = \<lparr>fov = 75, aspect = js_div (innerWidth w) (innerHeight w),
                           near = 0.1, far = 1000, cam_position = Vector3 0 0 0\<rparr>,
                 controls = None, model = None, mixer = None, trace = []\<rparr>
     in andThen (andThen (andThen (init w this) (\<lambda>v. Returns (setupLights v)))
                          (\<lambda>v. Returns (loadModel v)))
                (animate upd delta))"

text \<open>
  The browser runs the scheduled callback again and again; \<open>frames\<close> runs it once for
  each entry of a list of what the controller and the clock do at that frame.
\<close>

fun frames :: "(orbit \<times> real) list \<Rightarrow> ModelViewer \<Rightarrow> outcome" where
  "frames [] v = Returns v"
| "frames ((upd, delta) # fs) v = andThen (animate upd delta v) (frames fs)"

subsection \<open>Names used in the statements\<close>

text \<open>
  A viewer on which a callback can run has been through \<open>init\<close>: the constructor sets
  the controls before it registers any callback, and nothing in the file writes the field of
  view, which stays at the 75 degrees the camera is created with.
\<close>

definition constructed :: "ModelViewer \<Rightarrow> bool" where
  "constructed v = (controls v \<noteq> None \<and> fov (camera v) = 75)"

text \<open>
  Lines 85 to 87 and 98 to 100 of the load callback: the loaded scene with the scale and
  position the callback gives it, and the centre and size of its bounding box.
\<close>

definition placed :: "GLTF \<Rightarrow> Object3D" where
  "placed gltf = (gltf_scene gltf)\<lparr>position := Vector3 0 (-0.5) 0, scale := Vector3 1.2 1.2 1.2\<rparr>"

definition center_of :: "GLTF \<Rightarrow> vec3" where
  "center_of gltf = getCenter (setFromObject (placed gltf))"

definition size_of :: "GLTF \<Rightarrow> vec3" where
  "size_of gltf = getSize (setFromObject (placed gltf))"

text \<open>
  The controls as \<open>init\<close> configures them (lines 39 to 49) and the lights that
  \<open>setupLights\<close> adds (lines 57 to 76), in the order of the source.
\<close>

definition configured_controls :: OrbitControls where
  "configured_controls = \<lparr>enableDamping = True, dampingFactor = 0.05,
     screenSpacePanning = False, minDistance = 2, maxDistance = 10,
     autoRotate = True, autoRotateSpeed = 1.0, enableZoom = False,
     enablePan = False, target = Vector3 0 0.5 0\<rparr>"

definition placed_lights :: "node list" where
  "placed_lights = [AmbientLight 0xffffff 0.6, DirectionalLight 0xffffff 1.2 (Vector3 0 2 4),
       DirectionalLight 0xffffff 0.8 (Vector3 0 1 (-2)),
       DirectionalLight 0x00ffff 0.6 (Vector3 2 0 0),
       DirectionalLight 0xff00ff 0.6 (Vector3 (-2) 0 0)]"

text \<open>A box moved by a vector (\<open>Box3.translate\<close>); used to follow a box when its object moves.\<close>

fun translate :: "vec3 \<Rightarrow> box3 \<Rightarrow> box3" where
  "translate d EmptyBox = EmptyBox"
| "translate d (Box3 lo hi) =
     Box3 (Vector3 (vx lo + vx d) (vy lo + vy d) (vz lo + vz d))
          (Vector3 (vx hi + vx d) (vy hi + vy d) (vz hi + vz d))"

subsection \<open>Concrete inputs\<close>

text \<open>
  A controller that turns the camera about the vertical axis through the target, by the
  angle whose cosine is 4/5 and whose sine is 3/5, and keeps its height: what auto-rotation
  does, by a smaller angle at each call.
\<close>

definition orbit_turn :: orbit where
  "orbit_turn c p =
     (let dx = vx p - vx (target c); dz = vz p - vz (target c)
      in Vector3 (vx (target c) + (dx * (4/5) + dz * (3/5))) (vy p)
                 (vz (target c) + (dz * (4/5) - dx * (3/5))))"

definition demo_window :: Window where
  "demo_window = \<lparr>innerWidth = 800, innerHeight = 600, devicePixelRatio = 1\<rparr>"

text \<open>An asset whose geometry spans the cube from the origin to (5, 5, 5), with one clip.\<close>

definition demo_gltf :: GLTF where
  "demo_gltf = \<lparr>gltf_scene = \<lparr>position = Vector3 0 0 0, scale = Vector3 1 1 1,
       geometry = [Vector3 0 0 0, Vector3 5 5 5]\<rparr>, animations = [''Dance'']\<rparr>"

definition demo_still :: GLTF where
  "demo_still = demo_gltf\<lparr>animations := []\<rparr>"

text \<open>
  The viewer that \<open>new ModelViewer('viewer')\<close> leaves in an 800 by 600 window when the
  element exists and the controller turns the camera (\<open>constructor_demo\<close>).
\<close>

definition demo_viewer :: ModelViewer where
  "demo_viewer = \<lparr>container = Some ''viewer'', scene = placed_lights,
     camera = \<lparr>fov = 75, aspect = Some (4/3), near = 0.1, far = 1000,
               cam_position = Vector3 (12/5) (3/2) (16/5)\<rparr>,
     controls = Some configured_controls, model = None, mixer = None,
     trace = [SetPixelRatio 1, SetSize 800 600, SetClearColor 0 0, AppendChild ''viewer'',
          SetStyle ''width'' ''100%'', SetStyle ''height'' ''100%'',
          SetStyle ''position'' ''absolute'', SetStyle ''top'' ''0'', SetStyle ''left'' ''0'',
          AddEventListener ''resize''] @ map SceneAdd placed_lights @
          [LoaderLoad ''./robot_playground.glb'', RequestAnimationFrame, ControlsUpdate, Render]\<rparr>"

text \<open>The same viewer after the load of \<open>demo_gltf\<close> has completed.\<close>

definition demo_loaded :: ModelViewer where
  "demo_loaded = state (loadModel_onLoad orbit_turn demo_gltf demo_viewer)"

section \<open>What each method does\<close>

lemma emit_simps [simp]:
  "trace (emit cs v) = trace v @ cs"
  "container (emit cs v) = container v"
  "scene (emit cs v) = scene v"
  "camera (emit cs v) = camera v"
  "controls (emit cs v) = controls v"
  "model (emit cs v) = model v"
  "mixer (emit cs v) = mixer v"
  by (simp_all add: emit_def)

lemma add_simps [simp]:
  "trace (add n v) = trace v @ [SceneAdd n]"
  "container (add n v) = container v"
  "scene (add n v) = scene v @ [n]"
  "camera (add n v) = camera v"
  "controls (add n v) = controls v"
  "model (add n v) = model v"
  "mixer (add n v) = mixer v"
  by (simp_all add: add_def)

text \<open>Half of 75 degrees lies strictly between 0 and \<open>pi\<close>, so its sine is positive.\<close>

lemma sin_half_fov_pos: "0 < sin (75 * (pi / 180) / 2)"
proof -
  have "0 < 75 * (pi / 180) / 2" by simp
  moreover have "75 * (pi / 180) / 2 < pi" using pi_gt_zero by simp
  ultimately show ?thesis by (rule sin_gt_zero)
qed

lemma animate_effect:
  assumes "controls v = Some c"
  shows "\<exists>v'. animate upd delta v = Returns v'
    \<and> trace v' = trace v @ [RequestAnimationFrame, ControlsUpdate]
          @ (if mixer v = None then [] else [ClockGetDelta, MixerUpdate delta]) @ [Render]
    \<and> camera v' = (camera v)\<lparr>cam_position := upd c (cam_position (camera v))\<rparr>
    \<and> mixer v' = map_option (\<lambda>mx. mx\<lparr>time := time mx + delta\<rparr>) (mixer v)
    \<and> controls v' = controls v \<and> model v' = model v \<and> scene v' = scene v
    \<and> container v' = container v"
  using assms by (cases "mixer v") (simp_all add: animate_def Let_def)

lemma animate_constructed:
  assumes "constructed v" and "animate upd delta v = Returns v'"
  shows "constructed v'"
proof -
  from assms(1) obtain c where c: "controls v = Some c"
    by (auto simp: constructed_def)
  from animate_effect [OF c, of upd delta] assms show ?thesis
    by (auto simp: constructed_def)
qed

lemma onLoad_effect:
  assumes "controls v = Some c"
  shows "\<exists>v'. loadModel_onLoad upd gltf v = Returns v'
    \<and> model v' = Some ((placed gltf)\<lparr>position :=
          Vector3 (0 - vx (center_of gltf)) (-0.5) (0 - vz (center_of gltf))\<rparr>)
    \<and> controls v' = Some (c\<lparr>target := Vector3 0 (vy (center_of gltf) * 0.8) 0\<rparr>)
    \<and> camera v' = (camera v)\<lparr>cam_position :=
          upd (c\<lparr>target := Vector3 0 (vy (center_of gltf) * 0.8) 0\<rparr>)
            (Vector3 (vx (cam_position (camera v))) (vy (cam_position (camera v)))
               (\<bar>max (max (vx (size_of gltf)) (vy (size_of gltf))) (vz (size_of gltf))
                    / sin (fov (camera v) * (pi / 180) / 2)\<bar> * 0.8))\<rparr>
    \<and> scene v' = scene v @ [ModelNode]
    \<and> mixer v' = (case animations gltf of [] \<Rightarrow> mixer v
                   | clip # _ \<Rightarrow> Some \<lparr>root = ModelNode, playing = [clip], time = 0\<rparr>)
    \<and> trace v' = trace v @ [SceneAdd ModelNode]
          @ (case animations gltf of [] \<Rightarrow> [] | clip # _ \<Rightarrow> [ClipAction clip, ActionPlay clip])
          @ [UpdateProjectionMatrix, ControlsUpdate]
    \<and> container v' = container v"
  using assms
  by (cases "animations gltf")
     (simp_all add: loadModel_onLoad_def Let_def placed_def center_of_def size_of_def)

lemma onLoad_constructed:
  assumes "constructed v" and "loadModel_onLoad upd gltf v = Returns v'"
  shows "constructed v'"
proof -
  from assms(1) obtain c where c: "controls v = Some c"
    by (auto simp: constructed_def)
  from onLoad_effect [OF c, of upd gltf] assms show ?thesis
    by (auto simp: constructed_def)
qed

lemma callbacks_constructed:
  assumes "constructed v"
  shows "constructed (onWindowResize w v)"
    and "constructed (loadModel_onError err v)"
    and "constructed (loadModel_onProgress xhr v)"
  using assms
  by (simp_all add: constructed_def onWindowResize_def loadModel_onError_def
        loadModel_onProgress_def)

lemma constructor_effect:
  assumes "containerId \<in> set doc"
  shows "constructor doc w containerId upd delta = Returns
    \<lparr>container = Some containerId, scene = placed_lights,
     camera = \<lparr>fov = 75, aspect = js_div (innerWidth w) (innerHeight w), near = 0.1,
               far = 1000, cam_position = upd configured_controls (Vector3 0 1.5 4)\<rparr>,
     controls = Some configured_controls, model = None, mixer = None,
     trace = [SetPixelRatio (devicePixelRatio w), SetSize (innerWidth w) (innerHeight w),
          SetClearColor 0 0, AppendChild containerId,
          SetStyle ''width'' ''100%'', SetStyle ''height'' ''100%'',
          SetStyle ''position'' ''absolute'', SetStyle ''top'' ''0'', SetStyle ''left'' ''0'',
          AddEventListener ''resize''] @ map SceneAdd placed_lights @
          [LoaderLoad ''./robot_playground.glb'', RequestAnimationFrame, ControlsUpdate, Render]\<rparr>"
  using assms
  by (simp add: constructor_def init_def setupLights_def add_def loadModel_def animate_def
      emit_def Let_def getElementById_def configured_controls_def placed_lights_def)

lemma constructor_throws:
  assumes "containerId \<notin> set doc"
  shows "constructor doc w containerId upd delta = Throws TypeError
    \<lparr>container = None, scene = [],
     camera = \<lparr>fov = 75, aspect = js_div (innerWidth w) (innerHeight w), near = 0.1,
               far = 1000, cam_position = Vector3 0 0 0\<rparr>,
     controls = None, model = None, mixer = None,
     trace = [SetPixelRatio (devicePixelRatio w), SetSize (innerWidth w) (innerHeight w),
          SetClearColor 0 0]\<rparr>"
  using assms
  by (simp add: constructor_def init_def emit_def Let_def getElementById_def)

text \<open>Whatever the constructor returns is a constructed viewer.\<close>

lemma constructor_constructed:
  assumes "constructor doc w containerId upd delta = Returns v"
  shows "constructed v"
proof (cases "containerId \<in> set doc")
  case True
  from constructor_effect [OF True, of w upd delta] assms show ?thesis
    by (auto simp: constructed_def)
next
  case False
  from constructor_throws [OF False, of w upd delta] assms show ?thesis by simp
qed

lemma constructor_demo:
  "constructor [''viewer''] demo_window ''viewer'' orbit_turn 0 = Returns demo_viewer"
proof -
  have "''viewer'' \<in> set [''viewer'']" by simp
  from constructor_effect [OF this, of demo_window orbit_turn 0] show ?thesis
    by (simp add: demo_viewer_def demo_window_def js_div_def orbit_turn_def configured_controls_def)
qed

lemma demo_constructed: "constructed demo_viewer"
  using constructor_demo by (rule constructor_constructed)

lemma demo_viewer_controls: "controls demo_viewer = Some configured_controls"
  by (simp add: demo_viewer_def)

lemma demo_center: "center_of demo_gltf = Vector3 3 (5/2) 3"
  by (simp add: center_of_def placed_def demo_gltf_def setFromObject_def localToWorld_def)

lemma demo_size: "size_of demo_gltf = Vector3 6 6 6"
  by (simp add: size_of_def placed_def demo_gltf_def setFromObject_def localToWorld_def)

lemma demo_loaded_effect:
  "loadModel_onLoad orbit_turn demo_gltf demo_viewer = Returns demo_loaded"
  "constructed demo_loaded"
  "mixer demo_loaded = Some \<lparr>root = ModelNode, playing = [''Dance''], time = 0\<rparr>"
  "trace demo_loaded = trace demo_viewer @
     [SceneAdd ModelNode, ClipAction ''Dance'', ActionPlay ''Dance'', UpdateProjectionMatrix,
      ControlsUpdate]"
proof -
  from onLoad_effect [OF demo_viewer_controls, of orbit_turn demo_gltf]
  obtain v' where v': "loadModel_onLoad orbit_turn demo_gltf demo_viewer = Returns v'"
    and m: "mixer v' = (case animations demo_gltf of [] \<Rightarrow> mixer demo_viewer
                   | clip # _ \<Rightarrow> Some \<lparr>root = ModelNode, playing = [clip], time = 0\<rparr>)"
    and t: "trace v' = trace demo_viewer @ [SceneAdd ModelNode]
          @ (case animations demo_gltf of [] \<Rightarrow> [] | clip # _ \<Rightarrow> [ClipAction clip, ActionPlay clip])
          @ [UpdateProjectionMatrix, ControlsUpdate]"
    by blast
  have eq: "demo_loaded = v'" by (simp add: demo_loaded_def v')
  show "loadModel_onLoad orbit_turn demo_gltf demo_viewer = Returns demo_loaded"
    by (simp add: eq v')
  show "constructed demo_loaded"
    using onLoad_constructed [OF demo_constructed v'] by (simp add: eq)
  show "mixer demo_loaded = Some \<lparr>root = ModelNode, playing = [''Dance''], time = 0\<rparr>"
    using m by (simp add: eq demo_gltf_def)
  show "trace demo_loaded = trace demo_viewer @
     [SceneAdd ModelNode, ClipAction ''Dance'', ActionPlay ''Dance'', UpdateProjectionMatrix,
      ControlsUpdate]"
    using t by (simp add: eq demo_gltf_def)
qed

subsection \<open>The bounding box follows the object\<close>

lemma expandByPoint_translate:
  "expandByPoint (Vector3 (vx p + vx d) (vy p + vy d) (vz p + vz d)) (translate d b)
     = translate d (expandByPoint p b)"
  by (cases b)
     (simp_all add: min_add_distrib_left min_add_distrib_right
        max_add_distrib_left max_add_distrib_right)

lemma fold_expand_translate:
  "fold expandByPoint (map (\<lambda>p. Vector3 (vx p + vx d) (vy p + vy d) (vz p + vz d)) ps)
      (translate d b)
     = translate d (fold expandByPoint ps b)"
  by (induction ps arbitrary: b) (simp_all add: expandByPoint_translate)

lemma setFromObject_moved:
  "setFromObject (obj\<lparr>position := Vector3 (vx (position obj) + vx d) (vy (position obj) + vy d)
        (vz (position obj) + vz d)\<rparr>) = translate d (setFromObject obj)"
proof -
  let ?obj' = "obj\<lparr>position := Vector3 (vx (position obj) + vx d)
          (vy (position obj) + vy d) (vz (position obj) + vz d)\<rparr>"
  have g: "geometry ?obj' = geometry obj" by simp
  have h: "map (localToWorld ?obj') (geometry obj)
      = map (\<lambda>p. Vector3 (vx p + vx d) (vy p + vy d) (vz p + vz d))
          (map (localToWorld obj) (geometry obj))"
    by (simp add: localToWorld_def algebra_simps)
  show ?thesis
    unfolding setFromObject_def g h
    using fold_expand_translate [of d "map (localToWorld obj) (geometry obj)" EmptyBox] by simp
qed

lemma getCenter_translate:
  "getCenter (translate d b) =
     (case b of EmptyBox \<Rightarrow> Vector3 0 0 0
      | Box3 lo hi \<Rightarrow> Vector3 (vx (getCenter b) + vx d) (vy (getCenter b) + vy d)
                        (vz (getCenter b) + vz d))"
  by (cases b) (simp_all add: algebra_simps)

text \<open>
  Moving an object against the x and z of its box centre puts the centre of its box on the
  vertical axis and leaves the height of the centre where it was.
\<close>

lemma recentred:
  fixes obj :: Object3D
  defines "c \<equiv> getCenter (setFromObject obj)"
  shows "getCenter (setFromObject (obj\<lparr>position :=
            Vector3 (vx (position obj) - vx c) (vy (position obj)) (vz (position obj) - vz c)\<rparr>))
         = Vector3 0 (vy c) 0"
proof -
  have "setFromObject (obj\<lparr>position :=
            Vector3 (vx (position obj) - vx c) (vy (position obj)) (vz (position obj) - vz c)\<rparr>)
       = translate (Vector3 (- vx c) 0 (- vz c)) (setFromObject obj)"
    using setFromObject_moved [of obj "Vector3 (- vx c) 0 (- vz c)"] by simp
  then show ?thesis
    by (cases "setFromObject obj") (simp_all add: getCenter_translate c_def)
qed


section \<open>The claims\<close>

subsection \<open>The load-completion callback\<close>

text \<open>
  Claim C1, as stated: after the callback the bounding box of the model is centred at the
  origin on the x, y and z axes. The callback subtracts only the x and z of the centre
  (lines 103 and 104). For the cube from the origin to (5, 5, 5) the box of the model is
  centred at height 5/2 after the callback, not at 0.
\<close>

theorem onLoad_y_not_centred:
  "map_option (getCenter \<circ> setFromObject)
      (model (state (loadModel_onLoad orbit_turn demo_gltf demo_viewer)))
     = Some (Vector3 0 (5/2) 0)
   \<and> map_option (getCenter \<circ> setFromObject)
      (model (state (loadModel_onLoad orbit_turn demo_gltf demo_viewer)))
     \<noteq> Some (Vector3 0 0 0)"
  by (simp add: loadModel_onLoad_def Let_def demo_gltf_def demo_viewer_def add_def emit_def
        setFromObject_def localToWorld_def configured_controls_def)

text \<open>
  Claim C1, amended: for every loaded asset the callback returns with the model moved
  against the x and z of the centre of its bounding box and left at height -0.5, so that
  (in exact arithmetic) the box of the model is centred at 0 on the x and z axes, and at the
  height of the centre computed from the loaded scene on the y axis.
\<close>

theorem onLoad_centres_x_z:
  assumes "constructed v"
  shows "\<exists>v' m. loadModel_onLoad upd gltf v = Returns v' \<and> model v' = Some m
    \<and> position m = Vector3 (0 - vx (center_of gltf)) (-0.5) (0 - vz (center_of gltf))
    \<and> scale m = Vector3 1.2 1.2 1.2
    \<and> geometry m = geometry (gltf_scene gltf)
    \<and> getCenter (setFromObject m) = Vector3 0 (vy (center_of gltf)) 0"
proof -
  from assms obtain c where c: "controls v = Some c"
    by (auto simp: constructed_def)
  from onLoad_effect [OF c, of upd gltf]
  obtain v' where v': "loadModel_onLoad upd gltf v = Returns v'"
    and m: "model v' = Some ((placed gltf)\<lparr>position :=
          Vector3 (0 - vx (center_of gltf)) (-0.5) (0 - vz (center_of gltf))\<rparr>)"
    by blast
  have "getCenter (setFromObject ((placed gltf)\<lparr>position :=
          Vector3 (0 - vx (center_of gltf)) (-0.5) (0 - vz (center_of gltf))\<rparr>))
        = Vector3 0 (vy (center_of gltf)) 0"
    using recentred [of "placed gltf"] by (simp add: center_of_def placed_def)
  with v' m show ?thesis by (simp add: placed_def)
qed

theorem onLoad_centres_x_z_witness:
  "constructed demo_viewer
   \<and> map_option position (model (state (loadModel_onLoad orbit_turn demo_gltf demo_viewer)))
       = Some (Vector3 (-3) (-1/2) (-3))
   \<and> map_option (getCenter \<circ> setFromObject)
       (model (state (loadModel_onLoad orbit_turn demo_gltf demo_viewer)))
       = Some (Vector3 0 (5/2) 0)"
  using onLoad_centres_x_z [OF demo_constructed, of orbit_turn demo_gltf] demo_constructed
  by (auto simp: demo_center)

text \<open>
  Claim C2: the callback sets the z position of the camera to 0.8 times the absolute value
  of \<open>maxDim / sin (fov / 2)\<close>, with \<open>maxDim\<close> the largest extent of the bounding box and
  \<open>fov\<close> the field of view in radians, and sets the target of the controls to
  \<open>(0, 0.8 * center.y, 0)\<close>. The callback ends with \<open>controls.update()\<close>, which
  receives the camera at that position and the controls with that target; the divisor is
  positive.
\<close>

theorem onLoad_frames_camera:
  assumes "constructed v" and "controls v = Some c"
  shows "\<exists>v' c'. loadModel_onLoad upd gltf v = Returns v'
    \<and> controls v' = Some c'
    \<and> c' = c\<lparr>target := Vector3 0 (0.8 * vy (center_of gltf)) 0\<rparr>
    \<and> cam_position (camera v') = upd c'
         (Vector3 (vx (cam_position (camera v))) (vy (cam_position (camera v)))
            (0.8 * \<bar>Max {vx (size_of gltf), vy (size_of gltf), vz (size_of gltf)}
                     / sin (fov (camera v) * (pi / 180) / 2)\<bar>))
    \<and> 0 < sin (fov (camera v) * (pi / 180) / 2)"
proof -
  from assms(1) have f: "fov (camera v) = 75"
    by (simp add: constructed_def)
  have mx: "Max {vx (size_of gltf), vy (size_of gltf), vz (size_of gltf)}
        = max (max (vx (size_of gltf)) (vy (size_of gltf))) (vz (size_of gltf))"
    by (simp add: max.assoc)
  from onLoad_effect [OF assms(2), of upd gltf]
  obtain v' where v': "loadModel_onLoad upd gltf v = Returns v'"
    and cs: "controls v' = Some (c\<lparr>target := Vector3 0 (vy (center_of gltf) * 0.8) 0\<rparr>)"
    and cm: "camera v' = (camera v)\<lparr>cam_position :=
          upd (c\<lparr>target := Vector3 0 (vy (center_of gltf) * 0.8) 0\<rparr>)
            (Vector3 (vx (cam_position (camera v))) (vy (cam_position (camera v)))
               (\<bar>max (max (vx (size_of gltf)) (vy (size_of gltf))) (vz (size_of gltf))
                    / sin (fov (camera v) * (pi / 180) / 2)\<bar> * 0.8))\<rparr>"
    by blast
  have s: "0 < sin (fov (camera v) * (pi / 180) / 2)"
    using sin_half_fov_pos by (simp only: f)
  have t: "vy (center_of gltf) * 0.8 = 0.8 * vy (center_of gltf)"
    by simp
  show ?thesis
    using v' cs cm s unfolding mx t by (simp add: mult.commute)
qed

theorem onLoad_frames_camera_witness:
  "constructed demo_viewer \<and> controls demo_viewer = Some configured_controls
   \<and> map_option target (controls (state (loadModel_onLoad (\<lambda>c p. p) demo_gltf demo_viewer)))
       = Some (Vector3 0 2 0)
   \<and> cam_position (camera (state (loadModel_onLoad (\<lambda>c p. p) demo_gltf demo_viewer)))
       = Vector3 (12/5) (3/2) (0.8 * \<bar>6 / sin (75 * (pi / 180) / 2)\<bar>)"
  using onLoad_frames_camera [OF demo_constructed demo_viewer_controls, of "\<lambda>c p. p" demo_gltf]
    demo_constructed demo_viewer_controls
  by (auto simp: demo_center demo_size demo_viewer_def)

text \<open>
  Claim C4: when the asset has at least one clip the callback creates a mixer on the model
  and plays the first clip; when it has none, the mixer field is left as it was (null after
  construction) and no clip is played.
\<close>

theorem onLoad_mixer:
  assumes "constructed v"
  shows "\<exists>v'. loadModel_onLoad upd gltf v = Returns v' \<and> model v' \<noteq> None
    \<and> (case animations gltf of
          [] \<Rightarrow> mixer v' = mixer v
             \<and> trace v' = trace v @ [SceneAdd ModelNode, UpdateProjectionMatrix, ControlsUpdate]
        | clip # rest \<Rightarrow>
             mixer v' = Some \<lparr>root = ModelNode, playing = [clip], time = 0\<rparr>
             \<and> trace v' = trace v @ [SceneAdd ModelNode, ClipAction clip, ActionPlay clip,
                                      UpdateProjectionMatrix, ControlsUpdate])"
proof -
  from assms obtain c where c: "controls v = Some c"
    by (auto simp: constructed_def)
  from onLoad_effect [OF c, of upd gltf] show ?thesis
    by (cases "animations gltf") auto
qed

theorem onLoad_mixer_witness:
  "constructed demo_viewer
   \<and> mixer (state (loadModel_onLoad orbit_turn demo_gltf demo_viewer))
       = Some \<lparr>root = ModelNode, playing = [''Dance''], time = 0\<rparr>
   \<and> mixer (state (loadModel_onLoad orbit_turn demo_still demo_viewer)) = None
   \<and> trace (state (loadModel_onLoad orbit_turn demo_still demo_viewer))
       = trace demo_viewer @ [SceneAdd ModelNode, UpdateProjectionMatrix, ControlsUpdate]"
  using onLoad_mixer [OF demo_constructed, of orbit_turn demo_gltf]
    onLoad_mixer [OF demo_constructed, of orbit_turn demo_still] demo_constructed
  by (auto simp: demo_gltf_def demo_still_def demo_viewer_def)

text \<open>
  Claim C10, as stated: after the callback the x and y of the camera position are the 0 and
  1.5 that environment setup gave them. The constructor runs one frame before any load can
  complete, and the callback itself ends with \<open>controls.update()\<close>; both move the
  camera about the target (auto-rotation is switched on at line 45). With a controller that
  turns the camera, the x of the camera is not 0 after the callback.
\<close>

theorem onLoad_camera_x_moved:
  "vx (cam_position (camera (state
      (andThen (constructor [''viewer''] demo_window ''viewer'' orbit_turn 0)
               (loadModel_onLoad orbit_turn demo_gltf))))) \<noteq> 0"
proof -
  define Z :: real where "Z = \<bar>6 / sin (75 * (pi / 180) / 2)\<bar> * 0.8"
  have z: "0 \<le> Z"
    by (simp add: Z_def)
  from onLoad_effect [OF demo_viewer_controls, of orbit_turn demo_gltf]
  obtain v' where v': "loadModel_onLoad orbit_turn demo_gltf demo_viewer = Returns v'"
    and cm: "camera v' = (camera demo_viewer)\<lparr>cam_position :=
          orbit_turn (configured_controls\<lparr>target := Vector3 0 (vy (center_of demo_gltf) * 0.8) 0\<rparr>)
            (Vector3 (vx (cam_position (camera demo_viewer))) (vy (cam_position (camera demo_viewer)))
               (\<bar>max (max (vx (size_of demo_gltf)) (vy (size_of demo_gltf))) (vz (size_of demo_gltf))
                    / sin (fov (camera demo_viewer) * (pi / 180) / 2)\<bar> * 0.8))\<rparr>"
    by blast
  have p: "cam_position (camera demo_viewer) = Vector3 (12/5) (3/2) (16/5)"
    and f: "fov (camera demo_viewer) = 75"
    by (simp_all add: demo_viewer_def)
  have "cam_position (camera v') =
      orbit_turn (configured_controls\<lparr>target := Vector3 0 (vy (center_of demo_gltf) * 0.8) 0\<rparr>)
        (Vector3 (12/5) (3/2) Z)"
    unfolding cm p f demo_size Z_def by simp
  then have "vx (cam_position (camera v')) = 48 / 25 + Z * (3 / 5)"
    by (simp add: orbit_turn_def)
  with z have "vx (cam_position (camera v')) \<noteq> 0"
    by simp
  then show ?thesis
    by (simp add: constructor_demo v')
qed

text \<open>
  Claim C10, amended: the callback itself writes only the x and z of the model position and
  only the z of the camera position. The model is left at height -0.5, and the camera
  position handed to the closing \<open>controls.update()\<close> has the x and y the camera had
  when the callback started; what they are afterwards is up to the controller.
\<close>

theorem onLoad_assigns:
  assumes "constructed v"
  shows "\<exists>v' m c' z. loadModel_onLoad upd gltf v = Returns v'
    \<and> model v' = Some m \<and> vy (position m) = - 0.5
    \<and> controls v' = Some c'
    \<and> cam_position (camera v') =
        upd c' (Vector3 (vx (cam_position (camera v))) (vy (cam_position (camera v))) z)"
proof -
  from assms obtain c where c: "controls v = Some c"
    by (auto simp: constructed_def)
  from onLoad_effect [OF c, of upd gltf] show ?thesis
    by auto
qed

theorem onLoad_assigns_witness:
  "constructed demo_viewer
   \<and> map_option (vy \<circ> position) (model (state (loadModel_onLoad (\<lambda>c p. p) demo_gltf demo_viewer)))
       = Some (- 0.5)
   \<and> vx (cam_position (camera (state (loadModel_onLoad (\<lambda>c p. p) demo_gltf demo_viewer))))
       = vx (cam_position (camera demo_viewer))
   \<and> vy (cam_position (camera (state (loadModel_onLoad (\<lambda>c p. p) demo_gltf demo_viewer))))
       = vy (cam_position (camera demo_viewer))"
  using onLoad_assigns [OF demo_constructed, of "\<lambda>c p. p" demo_gltf] demo_constructed
  by auto


subsection \<open>The error callback\<close>

text \<open>
  Claim C3: when the load fails the only effect is one console error. The error callback
  changes no field of the viewer, and starting the load changed none either: the model and
  the mixer stay as they were (null after construction), nothing is added to the scene, and
  the camera and the controls are untouched.
\<close>

theorem onError_only_logs:
  "loadModel_onError err v = v\<lparr>trace := trace v @ [ConsoleError err]\<rparr>
   \<and> loadModel_onError err (loadModel v)
       = v\<lparr>trace := trace v @ [LoaderLoad ''./robot_playground.glb'', ConsoleError err]\<rparr>
   \<and> model (loadModel_onError err v) = model v
   \<and> mixer (loadModel_onError err v) = mixer v
   \<and> scene (loadModel_onError err v) = scene v
   \<and> camera (loadModel_onError err v) = camera v
   \<and> controls (loadModel_onError err v) = controls v
   \<and> container (loadModel_onError err v) = container v"
  by (simp add: loadModel_onError_def loadModel_def emit_def)

subsection \<open>The resize handler\<close>

text \<open>
  Claim C7: the resize handler sets the aspect of the camera to inner width divided by
  inner height, updates the projection matrix, and sets the size of the renderer to the
  inner width and height. The camera position, the other camera parameters, the controls,
  the scene, the model, the mixer and the container are unchanged.
\<close>

theorem onWindowResize_frame:
  "onWindowResize w v =
     v\<lparr>camera := (camera v)\<lparr>aspect := js_div (innerWidth w) (innerHeight w)\<rparr>,
       trace := trace v @ [UpdateProjectionMatrix, SetSize (innerWidth w) (innerHeight w)]\<rparr>
   \<and> cam_position (camera (onWindowResize w v)) = cam_position (camera v)
   \<and> fov (camera (onWindowResize w v)) = fov (camera v)
   \<and> near (camera (onWindowResize w v)) = near (camera v)
   \<and> far (camera (onWindowResize w v)) = far (camera v)
   \<and> controls (onWindowResize w v) = controls v
   \<and> scene (onWindowResize w v) = scene v
   \<and> model (onWindowResize w v) = model v
   \<and> mixer (onWindowResize w v) = mixer v
   \<and> container (onWindowResize w v) = container v"
  by (simp add: onWindowResize_def emit_def)

subsection \<open>The per-frame callback\<close>

text \<open>
  Claim C5: every invocation of the per-frame callback updates the controls, then, only
  when a mixer exists, reads the clock delta and advances the mixer by it, then renders
  once. (The callback is scheduled again first.)
\<close>

theorem animate_order:
  assumes "constructed v"
  shows "\<exists>v'. animate upd delta v = Returns v'
    \<and> trace v' = trace v @ [RequestAnimationFrame, ControlsUpdate]
          @ (if mixer v = None then [] else [ClockGetDelta, MixerUpdate delta]) @ [Render]
    \<and> mixer v' = map_option (\<lambda>mx. mx\<lparr>time := time mx + delta\<rparr>) (mixer v)"
proof -
  from assms obtain c where c: "controls v = Some c"
    by (auto simp: constructed_def)
  from animate_effect [OF c, of upd delta] show ?thesis
    by blast
qed

theorem animate_order_witness:
  "constructed demo_loaded
   \<and> trace (state (animate orbit_turn (1/60) demo_loaded)) = trace demo_loaded @
       [RequestAnimationFrame, ControlsUpdate, ClockGetDelta, MixerUpdate (1/60), Render]
   \<and> mixer (state (animate orbit_turn (1/60) demo_loaded))
       = Some \<lparr>root = ModelNode, playing = [''Dance''], time = 1/60\<rparr>"
  using animate_order [OF demo_loaded_effect(2), of orbit_turn "1/60"] demo_loaded_effect(2)
  by (auto simp: demo_loaded_effect(3))

text \<open>
  Claim C9: while the mixer is null the callback does not reach the mixer branch: it
  updates the controls and renders, calls no mixer update, and does not throw.
\<close>

theorem animate_without_mixer:
  assumes "constructed v" and "mixer v = None"
  shows "\<exists>v'. animate upd delta v = Returns v'
    \<and> trace v' = trace v @ [RequestAnimationFrame, ControlsUpdate, Render]
    \<and> mixer v' = None"
proof -
  from assms(1) obtain c where c: "controls v = Some c"
    by (auto simp: constructed_def)
  from animate_effect [OF c, of upd delta] assms(2) show ?thesis
    by auto
qed

theorem animate_without_mixer_witness:
  "constructed demo_viewer \<and> mixer demo_viewer = None
   \<and> trace (state (animate orbit_turn (1/60) demo_viewer))
       = trace demo_viewer @ [RequestAnimationFrame, ControlsUpdate, Render]
   \<and> mixer (state (animate orbit_turn (1/60) demo_viewer)) = None"
proof -
  have m: "mixer demo_viewer = None"
    by (simp add: demo_viewer_def)
  from animate_without_mixer [OF demo_constructed m, of orbit_turn "1/60"] demo_constructed m
  show ?thesis by auto
qed

text \<open>
  Claim C8: the loop never stops and always renders. From any constructed viewer, loaded
  or not, any number of successive invocations all return; each starts by scheduling the
  next one and ends with a render call, whether the model and the mixer are null or not.
\<close>

theorem frames_always_render:
  assumes "constructed v"
  shows "\<exists>v'. frames fs v = Returns v' \<and> constructed v'
    \<and> model v' = model v
    \<and> (mixer v' = None) = (mixer v = None)
    \<and> trace v' = trace v @ concat (map (\<lambda>f.
          [RequestAnimationFrame, ControlsUpdate]
            @ (if mixer v = None then [] else [ClockGetDelta, MixerUpdate (snd f)])
            @ [Render]) fs)"
  using assms
proof (induction fs arbitrary: v)
  case Nil
  then show ?case by simp
next
  case (Cons f fs)
  obtain upd delta where f: "f = (upd, delta)"
    by (cases f)
  from Cons.prems obtain c where c: "controls v = Some c"
    by (auto simp: constructed_def)
  from animate_effect [OF c, of upd delta]
  obtain v1 where r1: "animate upd delta v = Returns v1
    \<and> trace v1 = trace v @ [RequestAnimationFrame, ControlsUpdate]
          @ (if mixer v = None then [] else [ClockGetDelta, MixerUpdate delta]) @ [Render]
    \<and> camera v1 = (camera v)\<lparr>cam_position := upd c (cam_position (camera v))\<rparr>
    \<and> mixer v1 = map_option (\<lambda>mx. mx\<lparr>time := time mx + delta\<rparr>) (mixer v)
    \<and> controls v1 = controls v \<and> model v1 = model v \<and> scene v1 = scene v
    \<and> container v1 = container v" ..
  from r1 have v1: "animate upd delta v = Returns v1"
    by (rule conjunct1)
  from r1 have t1: "trace v1 = trace v @ [RequestAnimationFrame, ControlsUpdate]
          @ (if mixer v = None then [] else [ClockGetDelta, MixerUpdate delta]) @ [Render]"
    by simp
  from r1 have o1: "model v1 = model v"
    by simp
  from r1 have "mixer v1 = map_option (\<lambda>mx. mx\<lparr>time := time mx + delta\<rparr>) (mixer v)"
    by simp
  then have n1: "(mixer v1 = None) = (mixer v = None)"
    by simp
  have c1: "constructed v1"
    using Cons.prems v1 by (rule animate_constructed)
  from Cons.IH [OF c1]
  obtain v' where r: "frames fs v1 = Returns v' \<and> constructed v'
    \<and> model v' = model v1
    \<and> (mixer v' = None) = (mixer v1 = None)
    \<and> trace v' = trace v1 @ concat (map (\<lambda>f.
          [RequestAnimationFrame, ControlsUpdate]
            @ (if mixer v1 = None then [] else [ClockGetDelta, MixerUpdate (snd f)])
            @ [Render]) fs)" ..
  from r have v': "frames fs v1 = Returns v'"
    by (rule conjunct1)
  have s: "frames (f # fs) v = Returns v'"
    by (simp add: f v1 v')
  from r have t': "trace v' = trace v1 @ concat (map (\<lambda>f.
          [RequestAnimationFrame, ControlsUpdate]
            @ (if mixer v = None then [] else [ClockGetDelta, MixerUpdate (snd f)])
            @ [Render]) fs)"
    by (simp only: n1)
  have t: "trace v' = trace v @ concat (map (\<lambda>f.
          [RequestAnimationFrame, ControlsUpdate]
            @ (if mixer v = None then [] else [ClockGetDelta, MixerUpdate (snd f)])
            @ [Render]) (f # fs))"
    by (simp add: t' t1 f)
  from r have c': "constructed v'"
    by simp
  from r o1 have o': "model v' = model v"
    by simp
  from r n1 have n': "(mixer v' = None) = (mixer v = None)"
    by simp
  show ?case
    by (intro exI conjI) (rule s c' o' n' t)+
qed

theorem frames_always_render_witness:
  "constructed (loadModel_onError ''404'' demo_viewer)
   \<and> trace (state (frames [(orbit_turn, 1/60), (orbit_turn, 1/60)]
              (loadModel_onError ''404'' demo_viewer)))
       = trace demo_viewer @ [ConsoleError ''404'',
           RequestAnimationFrame, ControlsUpdate, Render,
           RequestAnimationFrame, ControlsUpdate, Render]"
proof -
  have c: "constructed (loadModel_onError ''404'' demo_viewer)"
    using demo_constructed by (rule callbacks_constructed(2))
  have m: "mixer (loadModel_onError ''404'' demo_viewer) = None"
    by (simp add: loadModel_onError_def demo_viewer_def)
  have t: "trace (loadModel_onError ''404'' demo_viewer) = trace demo_viewer @ [ConsoleError ''404'']"
    by (simp add: loadModel_onError_def)
  from frames_always_render [OF c, of "[(orbit_turn, 1/60), (orbit_turn, 1/60)]"] c
  show ?thesis
    by (auto simp: m t)
qed

subsection \<open>The constructor\<close>

text \<open>
  Claim C6, as stated: the constructor performs environment setup, light placement, the
  start of the load and the entry into the frame loop, and skips none. When the document
  has no element with the given id, \<open>this.container\<close> is null, \<open>init\<close> throws at
  \<open>appendChild\<close> (line 27) after three renderer calls, and the constructor performs
  nothing else: no light, no load, no frame.
\<close>

theorem constructor_missing_container:
  "constructor [''viewer''] demo_window ''missing'' orbit_turn 0 =
     Throws TypeError \<lparr>container = None, scene = [],
       camera = \<lparr>fov = 75, aspect = Some (4/3), near = 0.1, far = 1000,
                 cam_position = Vector3 0 0 0\<rparr>,
       controls = None, model = None, mixer = None,
       trace = [SetPixelRatio 1, SetSize 800 600, SetClearColor 0 0]\<rparr>"
  by (simp add: constructor_def init_def emit_def Let_def getElementById_def js_div_def
      demo_window_def)

text \<open>
  Claim C6, amended: when the document has an element with the given id, the constructor
  returns having performed, once each and in this order: renderer sizing, attaching the
  canvas, camera placement, canvas styling, configuration of the controls, registration of
  the resize listener; the placement of the five lights; the start of the load; and one
  invocation of the per-frame callback, which schedules the next.
\<close>

theorem constructor_order:
  assumes "containerId \<in> set doc"
  shows "\<exists>v'. constructor doc w containerId upd delta = Returns v'
    \<and> trace v' =
        [SetPixelRatio (devicePixelRatio w), SetSize (innerWidth w) (innerHeight w),
         SetClearColor 0 0, AppendChild containerId,
         SetStyle ''width'' ''100%'', SetStyle ''height'' ''100%'',
         SetStyle ''position'' ''absolute'', SetStyle ''top'' ''0'', SetStyle ''left'' ''0'',
         AddEventListener ''resize'']
        @ map SceneAdd placed_lights
        @ [LoaderLoad ''./robot_playground.glb'']
        @ [RequestAnimationFrame, ControlsUpdate, Render]
    \<and> scene v' = placed_lights
    \<and> controls v' = Some configured_controls
    \<and> cam_position (camera v') = upd configured_controls (Vector3 0 1.5 4)
    \<and> model v' = None \<and> mixer v' = None"
  using constructor_effect [OF assms, of w upd delta] by simp

theorem constructor_order_witness:
  "''viewer'' \<in> set [''viewer'']
   \<and> trace (state (constructor [''viewer''] demo_window ''viewer'' orbit_turn 0)) =
        [SetPixelRatio 1, SetSize 800 600, SetClearColor 0 0, AppendChild ''viewer'',
         SetStyle ''width'' ''100%'', SetStyle ''height'' ''100%'',
         SetStyle ''position'' ''absolute'', SetStyle ''top'' ''0'', SetStyle ''left'' ''0'',
         AddEventListener ''resize'']
        @ map SceneAdd placed_lights
        @ [LoaderLoad ''./robot_playground.glb'', RequestAnimationFrame, ControlsUpdate, Render]
   \<and> cam_position (camera (state (constructor [''viewer''] demo_window ''viewer'' orbit_turn 0)))
        = Vector3 (12/5) (3/2) (16/5)"
proof -
  have h: "''viewer'' \<in> set [''viewer'']" by simp
  from constructor_order [OF h, of demo_window orbit_turn 0] h show ?thesis
    by (auto simp: demo_window_def orbit_turn_def configured_controls_def)
qed

end
